theory Spec2Isabelle
  imports Main "HOL-Library.Word"
begin

section \<open>ELF/Symbols.h: the symbol classes and the in-place resolution primitive\<close>

subsection \<open>Machine types and the ELF constants the header refers to\<close>

type_synonym u8 = "8 word"
type_synonym u16 = "16 word"
type_synonym u32 = "32 word"
type_synonym u64 = "64 word"

text \<open>
  Pointers to objects of other subsystems are opaque handles; \<open>None\<close> is \<open>nullptr\<close>.
\<close>

type_synonym InputFile = nat
type_synonym SectionBase = nat
type_synonym InputSection = nat

text \<open>
  The binding, visibility and type codes of \<open>llvm::ELF\<close>, which the header uses by
  name only: they are the values the ELF gABI fixes (and \<open>llvm/BinaryFormat/ELF.h\<close>
  repeats), \<open>STT_GNU_IFUNC\<close> being \<open>STT_LOOS\<close>.
\<close>

definition STB_LOCAL :: u8 where "STB_LOCAL = 0"
definition STB_GLOBAL :: u8 where "STB_GLOBAL = 1"
definition STB_WEAK :: u8 where "STB_WEAK = 2"

definition STV_DEFAULT :: u8 where "STV_DEFAULT = 0"

definition STT_OBJECT :: u8 where "STT_OBJECT = 1"
definition STT_FUNC :: u8 where "STT_FUNC = 2"
definition STT_SECTION :: u8 where "STT_SECTION = 3"
definition STT_FILE :: u8 where "STT_FILE = 4"
definition STT_TLS :: u8 where "STT_TLS = 6"
definition STT_GNU_IFUNC :: u8 where "STT_GNU_IFUNC = 10"

text \<open>\<open>enum { UnknownType = 255 }\<close>.\<close>

definition UnknownType :: u8 where "UnknownType = 255"

text \<open>
  \<open>llvm::object::Archive::Symbol\<close>: the header only stores it and asks for its name.
\<close>

record Archive_Symbol =
  SymbolIndex :: u32
  StringIndex :: u32
  SymName :: string

text \<open>The part of the global \<open>Config\<close> that the \<open>Symbol\<close> constructor reads.\<close>

record Configuration =
  GcSections :: bool

subsection \<open>class Symbol and its subclasses\<close>

datatype Kind = DefinedKind | SharedKind | UndefinedKind | LazyArchiveKind | LazyObjectKind

text \<open>
  The members of the base class in the order of their declaration. One-bit bit-fields are
  \<open>bool\<close>, the two-bit \<open>Visibility\<close> is a \<open>2 word\<close>. \<open>SymbolKind\<close> is the eight-bit
  field that only ever holds a \<open>Kind\<close>.
\<close>

record Symbol =
  Binding :: u8
  VersionId :: u16
  Visibility :: "2 word"
  IsUsedInRegularObj :: bool
  ExportDynamic :: bool
  CanInline :: bool
  Traced :: bool
  InVersionScript :: bool
  File :: "InputFile option"
  DynsymIndex :: u32
  GotIndex :: u32
  GotPltIndex :: u32
  PltIndex :: u32
  GlobalDynIndex :: u32
  SymbolKind :: Kind
  NeedsPltAddr :: bool
  IsInGlobalMipsGot :: bool
  Is32BitMipsGot :: bool
  IsInIplt :: bool
  IsInIgot :: bool
  IsPreemptible :: bool
  Used :: bool
  Type :: u8
  StOther :: u8
  Name :: string

text \<open>
  The members each subclass adds: \<open>Defined\<close> has \<open>Value\<close>, \<open>Size\<close>, \<open>Section\<close>;
  \<open>SharedSymbol\<close> has \<open>CopyRelSec\<close>, \<open>Value\<close>, \<open>Size\<close>, \<open>VerdefIndex\<close>,
  \<open>Alignment\<close>; \<open>LazyArchive\<close> has \<open>Sym\<close>; \<open>Undefined\<close> and \<open>LazyObject\<close> add nothing.
\<close>

datatype Members =
  DefinedMembers u64 u64 "SectionBase option"
| UndefinedMembers
| SharedSymbolMembers "InputSection option" u64 u64 u32 u32
| LazyArchiveMembers Archive_Symbol
| LazyObjectMembers

text \<open>
  \<open>union SymbolUnion\<close>: a cell large enough for any of the five classes. Its contents are
  the base members and the members of the class that was constructed in it last.
\<close>

record SymbolUnion = Symbol +
  Derived :: Members

subsection \<open>The inline member functions of Symbol\<close>

definition kind :: "'a Symbol_scheme \<Rightarrow> Kind" where
  "kind S = SymbolKind S"

definition isWeak :: "'a Symbol_scheme \<Rightarrow> bool" where
  "isWeak S = (Binding S = STB_WEAK)"

definition isUndefined :: "'a Symbol_scheme \<Rightarrow> bool" where
  "isUndefined S = (SymbolKind S = UndefinedKind)"

definition isDefined :: "'a Symbol_scheme \<Rightarrow> bool" where
  "isDefined S = (SymbolKind S = DefinedKind)"

definition isShared :: "'a Symbol_scheme \<Rightarrow> bool" where
  "isShared S = (SymbolKind S = SharedKind)"

definition isLocal :: "'a Symbol_scheme \<Rightarrow> bool" where
  "isLocal S = (Binding S = STB_LOCAL)"

definition isLazy :: "'a Symbol_scheme \<Rightarrow> bool" where
  "isLazy S = (SymbolKind S = LazyArchiveKind \<or> SymbolKind S = LazyObjectKind)"

definition isUndefWeak :: "'a Symbol_scheme \<Rightarrow> bool" where
  "isUndefWeak S = (isWeak S \<and> (isUndefined S \<or> isLazy S))"

definition getName :: "'a Symbol_scheme \<Rightarrow> string" where
  "getName S = Name S"

text \<open>\<open>-1U\<close> is the \<open>unsigned\<close> value \<open>0 - 1\<close>, which wraps.\<close>

definition isInGot :: "'a Symbol_scheme \<Rightarrow> bool" where
  "isInGot S = (GotIndex S \<noteq> - 1)"

definition isInPlt :: "'a Symbol_scheme \<Rightarrow> bool" where
  "isInPlt S = (PltIndex S \<noteq> - 1)"

definition isSection :: "'a Symbol_scheme \<Rightarrow> bool" where
  "isSection S = (Type S = STT_SECTION)"

definition isTls :: "'a Symbol_scheme \<Rightarrow> bool" where
  "isTls S = (Type S = STT_TLS)"

definition isFunc :: "'a Symbol_scheme \<Rightarrow> bool" where
  "isFunc S = (Type S = STT_FUNC)"

definition isGnuIFunc :: "'a Symbol_scheme \<Rightarrow> bool" where
  "isGnuIFunc S = (Type S = STT_GNU_IFUNC)"

definition isObject :: "'a Symbol_scheme \<Rightarrow> bool" where
  "isObject S = (Type S = STT_OBJECT)"

definition isFile :: "'a Symbol_scheme \<Rightarrow> bool" where
  "isFile S = (Type S = STT_FILE)"

subsection \<open>Constructors\<close>

text \<open>
  A constructor runs on a storage cell \<open>M\<close> and writes the members it initialises: those
  of its initialiser list and those with a default member initialiser (the five slot
  indices). A member it does not mention (\<open>VersionId\<close>, \<open>Visibility\<close>,
  \<open>IsUsedInRegularObj\<close>, \<open>ExportDynamic\<close>, \<open>CanInline\<close>, \<open>Traced\<close>,
  \<open>InVersionScript\<close>) is left as the cell holds it, so its value after construction is a
  function of \<open>M\<close> alone, which no caller chooses.
\<close>

definition Symbol_ctor ::
  "Configuration \<Rightarrow> 'a Symbol_scheme \<Rightarrow> Kind \<Rightarrow> InputFile option \<Rightarrow> string \<Rightarrow> u8 \<Rightarrow> u8 \<Rightarrow> u8
    \<Rightarrow> 'a Symbol_scheme" where
  "Symbol_ctor Config M K F N B Ot T =
     M\<lparr>Binding := B, File := F,
       DynsymIndex := 0, GotIndex := - 1, GotPltIndex := - 1, PltIndex := - 1,
       GlobalDynIndex := - 1,
       SymbolKind := K, NeedsPltAddr := False, IsInGlobalMipsGot := False,
       Is32BitMipsGot := False, IsInIplt := False, IsInIgot := False,
       IsPreemptible := False, Used := (\<not> GcSections Config),
       Type := T, StOther := Ot, Name := N\<rparr>"

definition Defined_ctor ::
  "Configuration \<Rightarrow> SymbolUnion \<Rightarrow> InputFile option \<Rightarrow> string \<Rightarrow> u8 \<Rightarrow> u8 \<Rightarrow> u8 \<Rightarrow> u64 \<Rightarrow> u64
    \<Rightarrow> SectionBase option \<Rightarrow> SymbolUnion" where
  "Defined_ctor Config M F N B Ot T V Sz Sec =
     (Symbol_ctor Config M DefinedKind F N B Ot T)\<lparr>Derived := DefinedMembers V Sz Sec\<rparr>"

definition Undefined_ctor ::
  "Configuration \<Rightarrow> SymbolUnion \<Rightarrow> InputFile option \<Rightarrow> string \<Rightarrow> u8 \<Rightarrow> u8 \<Rightarrow> u8 \<Rightarrow> SymbolUnion" where
  "Undefined_ctor Config M F N B Ot T =
     (Symbol_ctor Config M UndefinedKind F N B Ot T)\<lparr>Derived := UndefinedMembers\<rparr>"

text \<open>
  \<open>SharedSymbol\<close> takes its file by reference, so \<open>File\<close> is never null; \<open>CopyRelSec\<close>
  starts as \<open>nullptr\<close>; the body turns \<open>STT_GNU_IFUNC\<close> into \<open>STT_FUNC\<close>.
\<close>

definition SharedSymbol_ctor ::
  "Configuration \<Rightarrow> SymbolUnion \<Rightarrow> InputFile \<Rightarrow> string \<Rightarrow> u8 \<Rightarrow> u8 \<Rightarrow> u8 \<Rightarrow> u64 \<Rightarrow> u64 \<Rightarrow> u32 \<Rightarrow> u32
    \<Rightarrow> SymbolUnion" where
  "SharedSymbol_ctor Config M F N B Ot T V Sz Al Vd =
     (let this = (Symbol_ctor Config M SharedKind (Some F) N B Ot T)
                   \<lparr>Derived := SharedSymbolMembers None V Sz Vd Al\<rparr>
      in if Type this = STT_GNU_IFUNC then this\<lparr>Type := STT_FUNC\<rparr> else this)"

definition Lazy_ctor ::
  "Configuration \<Rightarrow> 'a Symbol_scheme \<Rightarrow> Kind \<Rightarrow> InputFile \<Rightarrow> string \<Rightarrow> u8 \<Rightarrow> 'a Symbol_scheme" where
  "Lazy_ctor Config M K F N T = Symbol_ctor Config M K (Some F) N STB_GLOBAL STV_DEFAULT T"

definition LazyArchive_ctor ::
  "Configuration \<Rightarrow> SymbolUnion \<Rightarrow> InputFile \<Rightarrow> Archive_Symbol \<Rightarrow> u8 \<Rightarrow> SymbolUnion" where
  "LazyArchive_ctor Config M F S T =
     (Lazy_ctor Config M LazyArchiveKind F (SymName S) T)\<lparr>Derived := LazyArchiveMembers S\<rparr>"

definition LazyObject_ctor ::
  "Configuration \<Rightarrow> SymbolUnion \<Rightarrow> InputFile \<Rightarrow> string \<Rightarrow> u8 \<Rightarrow> SymbolUnion" where
  "LazyObject_ctor Config M F N T =
     (Lazy_ctor Config M LazyObjectKind F N T)\<lparr>Derived := LazyObjectMembers\<rparr>"

text \<open>
  A constructor call \<open>T(Arg...)\<close>: the class \<open>T\<close> together with the arguments of its
  constructor, as \<open>replaceSymbol<T>(S, Arg...)\<close> receives them.
\<close>

datatype CtorCall =
  NewDefined "InputFile option" string u8 u8 u8 u64 u64 "SectionBase option"
| NewUndefined "InputFile option" string u8 u8 u8
| NewSharedSymbol InputFile string u8 u8 u8 u64 u64 u32 u32
| NewLazyArchive InputFile Archive_Symbol u8
| NewLazyObject InputFile string u8

text \<open>\<open>new (S) T(Arg...)\<close> on a cell whose contents are \<open>M\<close>.\<close>

definition construct :: "Configuration \<Rightarrow> SymbolUnion \<Rightarrow> CtorCall \<Rightarrow> SymbolUnion" where
  "construct Config M c =
     (case c of
        NewDefined F N B Ot T V Sz Sec \<Rightarrow> Defined_ctor Config M F N B Ot T V Sz Sec
      | NewUndefined F N B Ot T \<Rightarrow> Undefined_ctor Config M F N B Ot T
      | NewSharedSymbol F N B Ot T V Sz Al Vd \<Rightarrow> SharedSymbol_ctor Config M F N B Ot T V Sz Al Vd
      | NewLazyArchive F S T \<Rightarrow> LazyArchive_ctor Config M F S T
      | NewLazyObject F N T \<Rightarrow> LazyObject_ctor Config M F N T)"

text \<open>The class and the name argument of a constructor call.\<close>

definition classOf :: "CtorCall \<Rightarrow> Kind" where
  "classOf c =
     (case c of
        NewDefined F N B Ot T V Sz Sec \<Rightarrow> DefinedKind
      | NewUndefined F N B Ot T \<Rightarrow> UndefinedKind
      | NewSharedSymbol F N B Ot T V Sz Al Vd \<Rightarrow> SharedKind
      | NewLazyArchive F S T \<Rightarrow> LazyArchiveKind
      | NewLazyObject F N T \<Rightarrow> LazyObjectKind)"

definition nameArg :: "CtorCall \<Rightarrow> string" where
  "nameArg c =
     (case c of
        NewDefined F N B Ot T V Sz Sec \<Rightarrow> N
      | NewUndefined F N B Ot T \<Rightarrow> N
      | NewSharedSymbol F N B Ot T V Sz Al Vd \<Rightarrow> N
      | NewLazyArchive F S T \<Rightarrow> SymName S
      | NewLazyObject F N T \<Rightarrow> N)"

subsection \<open>replaceSymbol and the trace hook\<close>

text \<open>
  Modelled from the spec: \<open>printTraceSymbol\<close>, which the header declares and does not
  define. It is the diagnostic hook that renders a traced symbol's transition as text and
  leaves the symbol alone; what matters here is that it was called, and on what, so the
  log records the symbol each call was handed, as the cell holds it at the call.
\<close>

type_synonym TraceLog = "SymbolUnion list"

definition printTraceSymbol :: "SymbolUnion \<Rightarrow> TraceLog \<Rightarrow> TraceLog" where
  "printTraceSymbol Sym log = log @ [Sym]"

text \<open>
  \<open>replaceSymbol<T>(S, Arg...)\<close>. The cell holds \<open>S\<close>. The copy \<open>Sym = *S\<close> is taken, the
  new object is constructed in the cell, the seven members are copied back from \<open>Sym\<close>,
  and the hook runs when \<open>S->Traced\<close> is set. \<open>M\<close> is what the constructor finds in the
  cell for the members it does not initialise: C++ leaves them indeterminate, so \<open>M\<close> is
  any cell (\<open>M = S\<close> when the old bytes are simply kept).
\<close>

definition replaceSymbol ::
  "Configuration \<Rightarrow> SymbolUnion \<Rightarrow> CtorCall \<Rightarrow> SymbolUnion \<times> TraceLog \<Rightarrow> SymbolUnion \<times> TraceLog" where
  "replaceSymbol Config M c st =
     (let S = fst st; log = snd st;
          Sym = S;
          S1 = construct Config M c;
          S2 = S1\<lparr>VersionId := VersionId Sym\<rparr>;
          S3 = S2\<lparr>Visibility := Visibility Sym\<rparr>;
          S4 = S3\<lparr>IsUsedInRegularObj := IsUsedInRegularObj Sym\<rparr>;
          S5 = S4\<lparr>ExportDynamic := ExportDynamic Sym\<rparr>;
          S6 = S5\<lparr>CanInline := CanInline Sym\<rparr>;
          S7 = S6\<lparr>Traced := Traced Sym\<rparr>;
          S8 = S7\<lparr>InVersionScript := InVersionScript Sym\<rparr>
      in if Traced S8 then (S8, printTraceSymbol S8 log) else (S8, log))"

text \<open>A sequence of transitions on one cell, each with its own constructor call.\<close>

primrec replaceSymbols ::
  "Configuration \<Rightarrow> (SymbolUnion \<times> CtorCall) list \<Rightarrow> SymbolUnion \<times> TraceLog
    \<Rightarrow> SymbolUnion \<times> TraceLog" where
  "replaceSymbols Config [] st = st"
| "replaceSymbols Config (t # ts) st =
     replaceSymbols Config ts (replaceSymbol Config (fst t) (snd t) st)"

subsection \<open>The lazy fetch protocol\<close>

text \<open>
  Modelled from the spec: \<open>Lazy::fetch\<close>, \<open>LazyArchive::fetch\<close> and
  \<open>LazyObject::fetch\<close>, which the header declares and does not define, and the state
  they consult. The protocol is a two-state machine for each lazy slot, not yet fetched
  and fetched: the first call hands over the input file to load and marks the slot, every
  later call returns null. \<open>LazyArchive::fetch\<close> extracts the archive member the
  stored symbol descriptor names (\<open>getMember\<close>, the archive reader's part);
  \<open>LazyObject::fetch\<close> returns the object file itself. \<open>fetch\<close> is a member of
  \<open>Lazy\<close>: on a slot that holds no lazy symbol the call is an error.
\<close>

datatype FetchState = NotYetFetched | AlreadyFetched

type_synonym LazySlot = "SymbolUnion \<times> FetchState"

datatype FetchError = NotLazy | NoFile

definition LazyArchive_fetch ::
  "(InputFile \<Rightarrow> Archive_Symbol \<Rightarrow> InputFile) \<Rightarrow> LazySlot
    \<Rightarrow> FetchError + (InputFile option \<times> LazySlot)" where
  "LazyArchive_fetch getMember L =
     (case snd L of
        AlreadyFetched \<Rightarrow> Inr (None, L)
      | NotYetFetched \<Rightarrow>
          (case File (fst L) of
             None \<Rightarrow> Inl NoFile
           | Some F \<Rightarrow>
               (case Derived (fst L) of
                  LazyArchiveMembers Sym \<Rightarrow> Inr (Some (getMember F Sym), (fst L, AlreadyFetched))
                | _ \<Rightarrow> Inl NotLazy)))"

definition LazyObject_fetch :: "LazySlot \<Rightarrow> FetchError + (InputFile option \<times> LazySlot)" where
  "LazyObject_fetch L =
     (case snd L of
        AlreadyFetched \<Rightarrow> Inr (None, L)
      | NotYetFetched \<Rightarrow>
          (case File (fst L) of
             None \<Rightarrow> Inl NoFile
           | Some F \<Rightarrow> Inr (Some F, (fst L, AlreadyFetched))))"

definition fetch ::
  "(InputFile \<Rightarrow> Archive_Symbol \<Rightarrow> InputFile) \<Rightarrow> LazySlot
    \<Rightarrow> FetchError + (InputFile option \<times> LazySlot)" where
  "fetch getMember L =
     (if SymbolKind (fst L) = LazyArchiveKind then LazyArchive_fetch getMember L
      else if SymbolKind (fst L) = LazyObjectKind then LazyObject_fetch L
      else Inl NotLazy)"

text \<open>
  \<open>n\<close> calls of \<open>fetch\<close> in a row on one slot, with no replacement in between: the
  files they return, in order.
\<close>

primrec fetch_calls ::
  "(InputFile \<Rightarrow> Archive_Symbol \<Rightarrow> InputFile) \<Rightarrow> nat \<Rightarrow> LazySlot
    \<Rightarrow> FetchError + InputFile option list" where
  "fetch_calls getMember 0 L = Inr []"
| "fetch_calls getMember (Suc n) L =
     (case fetch getMember L of
        Inl e \<Rightarrow> Inl e
      | Inr r \<Rightarrow>
          (case fetch_calls getMember n (snd r) of
             Inl e \<Rightarrow> Inl e
           | Inr rs \<Rightarrow> Inr (fst r # rs)))"

text \<open>A cell of zero bytes, and a configuration, for concrete runs.\<close>

definition zeroCell :: SymbolUnion where
  "zeroCell =
     \<lparr>Binding = 0, VersionId = 0, Visibility = 0, IsUsedInRegularObj = False,
      ExportDynamic = False, CanInline = False, Traced = False, InVersionScript = False,
      File = None, DynsymIndex = 0, GotIndex = 0, GotPltIndex = 0, PltIndex = 0,
      GlobalDynIndex = 0, SymbolKind = DefinedKind, NeedsPltAddr = False,
      IsInGlobalMipsGot = False, Is32BitMipsGot = False, IsInIplt = False, IsInIgot = False,
      IsPreemptible = False, Used = False, Type = 0, StOther = 0, Name = [],
      Derived = DefinedMembers 0 0 None\<rparr>"

definition noGc :: Configuration where
  "noGc = \<lparr>GcSections = False\<rparr>"

section \<open>Properties\<close>

subsection \<open>Shared facts about construction\<close>

lemmas ctor_defs =
  construct_def Defined_ctor_def Undefined_ctor_def SharedSymbol_ctor_def
  LazyArchive_ctor_def LazyObject_ctor_def Lazy_ctor_def Symbol_ctor_def

lemma construct_Name: "Name (construct Config M c) = nameArg c"
  by (cases c) (simp_all add: ctor_defs nameArg_def Let_def)

lemma construct_SymbolKind: "SymbolKind (construct Config M c) = classOf c"
  by (cases c) (simp_all add: ctor_defs classOf_def Let_def)

lemma replaceSymbol_Name: "Name (fst (replaceSymbol Config M c st)) = nameArg c"
  by (simp add: replaceSymbol_def Let_def construct_Name)

lemma all_ones_u32: "(- 1 :: u32) = 0xFFFFFFFF"
  by simp

lemma fetch_calls_AlreadyFetched:
  "isLazy S \<Longrightarrow> fetch_calls g n (S, AlreadyFetched) = Inr (replicate n None)"
  by (induction n)
     (auto simp: fetch_def LazyArchive_fetch_def LazyObject_fetch_def isLazy_def)

subsection \<open>What replaceSymbol keeps\<close>

text \<open>
  C1. Whatever the cell held (\<open>S\<close>), whichever class is constructed with whatever
  arguments (\<open>c\<close>), and whatever the constructor left in the members it does not
  initialise (\<open>M\<close>): after \<open>replaceSymbol\<close> the members \<open>VersionId\<close>,
  \<open>Visibility\<close>, \<open>IsUsedInRegularObj\<close>, \<open>ExportDynamic\<close>, \<open>CanInline\<close>,
  \<open>Traced\<close> and \<open>InVersionScript\<close> have the values they had before the call.
\<close>

theorem replaceSymbol_keeps_flags:
  "VersionId (fst (replaceSymbol Config M c (S, lg))) = VersionId S
   \<and> Visibility (fst (replaceSymbol Config M c (S, lg))) = Visibility S
   \<and> IsUsedInRegularObj (fst (replaceSymbol Config M c (S, lg))) = IsUsedInRegularObj S
   \<and> ExportDynamic (fst (replaceSymbol Config M c (S, lg))) = ExportDynamic S
   \<and> CanInline (fst (replaceSymbol Config M c (S, lg))) = CanInline S
   \<and> Traced (fst (replaceSymbol Config M c (S, lg))) = Traced S
   \<and> InVersionScript (fst (replaceSymbol Config M c (S, lg))) = InVersionScript S"
  by (simp add: replaceSymbol_def Let_def)

text \<open>
  C2. The comment on \<open>Binding\<close> says that \<open>replaceSymbol\<close> does not overwrite it and
  that an undefined weak stays weak. The function does overwrite it: \<open>Binding\<close> is in
  the constructor's initialiser list and is not among the members copied back. A cell
  holding a weak \<open>Undefined\<close> named \<open>foo\<close>, replaced by a \<open>LazyObject\<close> for the same
  name, ends with \<open>Binding = STB_GLOBAL\<close> and \<open>isWeak()\<close> false.
\<close>

theorem replaceSymbol_overwrites_Binding:
  "Binding (construct noGc zeroCell (NewUndefined None ''foo'' STB_WEAK STV_DEFAULT 0))
     = STB_WEAK
   \<and> Binding (fst (replaceSymbol noGc
        (construct noGc zeroCell (NewUndefined None ''foo'' STB_WEAK STV_DEFAULT 0))
        (NewLazyObject 7 ''foo'' UnknownType)
        (construct noGc zeroCell (NewUndefined None ''foo'' STB_WEAK STV_DEFAULT 0), [])))
     = STB_GLOBAL
   \<and> isWeak (fst (replaceSymbol noGc
        (construct noGc zeroCell (NewUndefined None ''foo'' STB_WEAK STV_DEFAULT 0))
        (NewLazyObject 7 ''foo'' UnknownType)
        (construct noGc zeroCell (NewUndefined None ''foo'' STB_WEAK STV_DEFAULT 0), [])))
     = False"
  by (simp add: replaceSymbol_def Let_def ctor_defs isWeak_def STB_WEAK_def STB_GLOBAL_def)

subsection \<open>isUndefWeak\<close>

text \<open>
  C3. \<open>isUndefWeak()\<close> is true exactly when \<open>Binding\<close> is \<open>STB_WEAK\<close> and the kind is
  \<open>Undefined\<close>, \<open>LazyArchive\<close> or \<open>LazyObject\<close>; in particular it is false for a
  weak \<open>Defined\<close> and for a weak \<open>SharedSymbol\<close>.
\<close>

theorem isUndefWeak_iff:
  "isUndefWeak S =
     (Binding S = STB_WEAK \<and>
      (kind S = UndefinedKind \<or> kind S = LazyArchiveKind \<or> kind S = LazyObjectKind))
   \<and> isUndefWeak (S\<lparr>Binding := STB_WEAK, SymbolKind := DefinedKind\<rparr>) = False
   \<and> isUndefWeak (S\<lparr>Binding := STB_WEAK, SymbolKind := SharedKind\<rparr>) = False"
  by (auto simp: isUndefWeak_def isWeak_def isUndefined_def isLazy_def kind_def)

subsection \<open>Slot indices\<close>

text \<open>
  C4, as the claim states it, fails: \<open>DynsymIndex\<close> has the default member initialiser
  \<open>0\<close>, not \<open>-1\<close>. A fresh \<open>Undefined\<close> has \<open>DynsymIndex\<close> different from the
  all-ones value.
\<close>

theorem DynsymIndex_not_all_ones:
  "DynsymIndex (construct noGc zeroCell (NewUndefined None ''foo'' STB_GLOBAL STV_DEFAULT 0))
     \<noteq> 0xFFFFFFFF"
  by (simp add: ctor_defs)

text \<open>
  C4, amended. For a newly constructed symbol of any of the five classes, in any cell,
  \<open>GotIndex\<close>, \<open>GotPltIndex\<close>, \<open>PltIndex\<close> and \<open>GlobalDynIndex\<close> hold the all-ones
  value \<open>0xFFFFFFFF\<close>, and \<open>DynsymIndex\<close> holds \<open>0\<close>.
\<close>

theorem construct_slot_indices:
  "DynsymIndex (construct Config M c) = 0
   \<and> GotIndex (construct Config M c) = 0xFFFFFFFF
   \<and> GotPltIndex (construct Config M c) = 0xFFFFFFFF
   \<and> PltIndex (construct Config M c) = 0xFFFFFFFF
   \<and> GlobalDynIndex (construct Config M c) = 0xFFFFFFFF"
  by (cases c) (simp_all add: ctor_defs Let_def)

text \<open>
  C6. \<open>isInGot()\<close> is false exactly when \<open>GotIndex\<close> is the all-ones value, and
  \<open>isInPlt()\<close> is false exactly when \<open>PltIndex\<close> is; index \<open>0\<close> counts as present.
\<close>

theorem isInGot_isInPlt_iff:
  "(\<not> isInGot S) = (GotIndex S = 0xFFFFFFFF)
   \<and> (\<not> isInPlt S) = (PltIndex S = 0xFFFFFFFF)
   \<and> isInGot (S\<lparr>GotIndex := 0\<rparr>)
   \<and> isInPlt (S\<lparr>PltIndex := 0\<rparr>)"
  by (simp only: isInGot_def isInPlt_def all_ones_u32) simp

subsection \<open>SharedSymbol and GNU ifunc\<close>

text \<open>
  C5. For all constructor arguments, a \<open>SharedSymbol\<close> constructed with type
  \<open>STT_GNU_IFUNC\<close> has \<open>Type = STT_FUNC\<close>, so \<open>isFunc()\<close> holds and \<open>isGnuIFunc()\<close>
  does not; any other type is stored as given.
\<close>

theorem SharedSymbol_ctor_Type:
  "Type (SharedSymbol_ctor Config M F N B Ot T V Sz Al Vd)
     = (if T = STT_GNU_IFUNC then STT_FUNC else T)
   \<and> Type (SharedSymbol_ctor Config M F N B Ot STT_GNU_IFUNC V Sz Al Vd) = STT_FUNC
   \<and> isFunc (SharedSymbol_ctor Config M F N B Ot STT_GNU_IFUNC V Sz Al Vd)
   \<and> isGnuIFunc (SharedSymbol_ctor Config M F N B Ot STT_GNU_IFUNC V Sz Al Vd) = False"
  by (simp add: ctor_defs Let_def isFunc_def isGnuIFunc_def STT_GNU_IFUNC_def STT_FUNC_def)

subsection \<open>The trace hook\<close>

text \<open>
  C7. \<open>replaceSymbol\<close> calls \<open>printTraceSymbol\<close> once, on the cell as it is after the
  transition (an object of the new class, with \<open>Traced\<close> as before), when \<open>Traced\<close>
  was set before the call, and does not call it when \<open>Traced\<close> was clear: the log of
  calls grows by exactly that one entry, or stays as it was.
\<close>

theorem replaceSymbol_trace:
  "snd (replaceSymbol Config M c (S, lg)) =
     (if Traced S then lg @ [fst (replaceSymbol Config M c (S, lg))] else lg)
   \<and> kind (fst (replaceSymbol Config M c (S, lg))) = classOf c
   \<and> Traced (fst (replaceSymbol Config M c (S, lg))) = Traced S"
  by (simp add: replaceSymbol_def Let_def printTraceSymbol_def kind_def construct_SymbolKind)

subsection \<open>Lazy fetch\<close>

text \<open>
  C8. On a slot that holds a \<open>LazyArchive\<close> or a \<open>LazyObject\<close> (with its file, and
  for a \<open>LazyArchive\<close> its archive symbol) and on which \<open>fetch()\<close> has not been
  called yet, any run of \<open>n + 1\<close> calls with no replacement in between returns a file
  on the first call (the extracted member, or the object file itself) and null on each of
  the \<open>n\<close> calls after it.
\<close>

theorem fetch_once:
  assumes lazy: "isLazy S"
    and hasFile: "File S = Some F"
    and sym: "kind S = LazyArchiveKind \<longrightarrow> Derived S = LazyArchiveMembers A"
  shows "fetch_calls g (Suc n) (S, NotYetFetched)
     = Inr (Some (if kind S = LazyArchiveKind then g F A else F) # replicate n None)"
proof -
  have later: "fetch_calls g n (S, AlreadyFetched) = Inr (replicate n None)"
    using lazy by (rule fetch_calls_AlreadyFetched)
  show ?thesis
  proof (cases "SymbolKind S = LazyArchiveKind")
    case True
    with sym have "Derived S = LazyArchiveMembers A"
      by (simp add: kind_def)
    with True hasFile
    have "fetch g (S, NotYetFetched) = Inr (Some (g F A), (S, AlreadyFetched))"
      by (simp add: fetch_def LazyArchive_fetch_def)
    with later True show ?thesis
      by (simp add: kind_def)
  next
    case False
    with lazy have "SymbolKind S = LazyObjectKind"
      by (simp add: isLazy_def)
    with hasFile
    have "fetch g (S, NotYetFetched) = Inr (Some F, (S, AlreadyFetched))"
      by (simp add: fetch_def LazyObject_fetch_def)
    with later False show ?thesis
      by (simp add: kind_def)
  qed
qed

theorem fetch_once_witness:
  "isLazy (construct noGc zeroCell
      (NewLazyArchive 7 \<lparr>SymbolIndex = 0, StringIndex = 0, SymName = ''foo''\<rparr> UnknownType))
   \<and> File (construct noGc zeroCell
      (NewLazyArchive 7 \<lparr>SymbolIndex = 0, StringIndex = 0, SymName = ''foo''\<rparr> UnknownType))
     = Some 7
   \<and> Derived (construct noGc zeroCell
      (NewLazyArchive 7 \<lparr>SymbolIndex = 0, StringIndex = 0, SymName = ''foo''\<rparr> UnknownType))
     = LazyArchiveMembers \<lparr>SymbolIndex = 0, StringIndex = 0, SymName = ''foo''\<rparr>
   \<and> fetch_calls (\<lambda>F A. F + 1) (Suc 3) (construct noGc zeroCell
      (NewLazyArchive 7 \<lparr>SymbolIndex = 0, StringIndex = 0, SymName = ''foo''\<rparr> UnknownType),
      NotYetFetched)
     = Inr [Some 8, None, None, None]"
  using fetch_once
    [where S = "construct noGc zeroCell
         (NewLazyArchive 7 \<lparr>SymbolIndex = 0, StringIndex = 0, SymName = ''foo''\<rparr> UnknownType)"
       and F = 7 and A = "\<lparr>SymbolIndex = 0, StringIndex = 0, SymName = ''foo''\<rparr>"
       and g = "\<lambda>F A. F + 1" and n = 3]
  by (simp add: ctor_defs isLazy_def kind_def numeral_3_eq_3)

subsection \<open>The name across transitions\<close>

text \<open>
  C9, as the claim states it, fails: \<open>Name\<close> is in the constructor's initialiser list
  and is not among the members \<open>replaceSymbol\<close> copies back, so the name after a
  transition is the one the constructor was given. A cell holding \<open>foo\<close>, replaced by a
  \<open>Defined\<close> constructed with the name \<open>bar\<close>, is named \<open>bar\<close>.
\<close>

theorem replaceSymbol_renames:
  "getName (fst (replaceSymbol noGc zeroCell
      (NewDefined None ''bar'' STB_GLOBAL STV_DEFAULT 0 0 0 None)
      (construct noGc zeroCell (NewUndefined None ''foo'' STB_GLOBAL STV_DEFAULT 0), [])))
   \<noteq> getName (construct noGc zeroCell (NewUndefined None ''foo'' STB_GLOBAL STV_DEFAULT 0))"
  by (simp add: getName_def replaceSymbol_Name construct_Name nameArg_def)

text \<open>
  C9, amended. For every cell and every sequence of transitions by \<open>replaceSymbol\<close> in
  which each constructor is given the name the cell has at the start (for \<open>LazyArchive\<close>,
  the name of the archive symbol), \<open>getName()\<close> after the sequence equals \<open>getName()\<close>
  before it.
\<close>

theorem replaceSymbols_Name:
  "list_all (\<lambda>t. nameArg (snd t) = getName (fst st)) ts
   \<Longrightarrow> getName (fst (replaceSymbols Config ts st)) = getName (fst st)"
proof (induction ts arbitrary: st)
  case Nil
  show ?case by simp
next
  case (Cons t ts)
  let ?st = "replaceSymbol Config (fst t) (snd t) st"
  from Cons.prems have here: "nameArg (snd t) = getName (fst st)"
    and rest: "list_all (\<lambda>t. nameArg (snd t) = getName (fst st)) ts"
    by simp_all
  have same: "getName (fst ?st) = getName (fst st)"
    by (simp add: getName_def replaceSymbol_Name here [unfolded getName_def])
  from rest have "list_all (\<lambda>t. nameArg (snd t) = getName (fst ?st)) ts"
    by (simp add: same)
  then have "getName (fst (replaceSymbols Config ts ?st)) = getName (fst ?st)"
    by (rule Cons.IH)
  then show ?case by (simp add: same)
qed

theorem replaceSymbols_Name_witness:
  "list_all (\<lambda>t. nameArg (snd t) =
       getName (fst (construct noGc zeroCell (NewUndefined None ''foo'' STB_GLOBAL STV_DEFAULT 0),
                     [] :: TraceLog)))
     [(zeroCell, NewLazyObject 7 ''foo'' UnknownType),
      (zeroCell, NewDefined (Some 7) ''foo'' STB_GLOBAL STV_DEFAULT STT_FUNC 4096 16 (Some 3))]
   \<and> getName (fst (replaceSymbols noGc
       [(zeroCell, NewLazyObject 7 ''foo'' UnknownType),
        (zeroCell, NewDefined (Some 7) ''foo'' STB_GLOBAL STV_DEFAULT STT_FUNC 4096 16 (Some 3))]
       (construct noGc zeroCell (NewUndefined None ''foo'' STB_GLOBAL STV_DEFAULT 0), [])))
     = ''foo''"
  using replaceSymbols_Name
    [where ts = "[(zeroCell, NewLazyObject 7 ''foo'' UnknownType),
          (zeroCell, NewDefined (Some 7) ''foo'' STB_GLOBAL STV_DEFAULT STT_FUNC 4096 16 (Some 3))]"
       and st = "(construct noGc zeroCell (NewUndefined None ''foo'' STB_GLOBAL STV_DEFAULT 0), [])"
       and Config = noGc]
  by (simp add: getName_def construct_Name nameArg_def)

subsection \<open>What the constructors leave uninitialised\<close>

text \<open>
  C10. No constructor writes \<open>VersionId\<close>, \<open>Visibility\<close>, \<open>IsUsedInRegularObj\<close>,
  \<open>ExportDynamic\<close>, \<open>CanInline\<close>, \<open>Traced\<close> or \<open>InVersionScript\<close>: in a freshly
  constructed object of any of the five classes each of the seven has whatever value the
  storage held, whatever the constructor's arguments are, until someone assigns it.
\<close>

theorem construct_leaves_uninitialised:
  "VersionId (construct Config M c) = VersionId M
   \<and> Visibility (construct Config M c) = Visibility M
   \<and> IsUsedInRegularObj (construct Config M c) = IsUsedInRegularObj M
   \<and> ExportDynamic (construct Config M c) = ExportDynamic M
   \<and> CanInline (construct Config M c) = CanInline M
   \<and> Traced (construct Config M c) = Traced M
   \<and> InVersionScript (construct Config M c) = InVersionScript M"
  by (cases c) (simp_all add: ctor_defs Let_def)

end
